theory Spec2Isabelle
  imports Main
begin

section \<open>Python values, library functions and the operating system\<close>

text \<open>
  Python's \<open>str\<close> is modelled by \<open>string\<close>; a character stands for a code point
  below 256. The option map of a build holds the values the application puts there:
  \<open>None\<close>, a boolean or a string. It is an association list, in insertion order.
\<close>

datatype pyval = PyNone | PyBool bool | PyStr string

text \<open>\<open>str(value)\<close>.\<close>

fun py_str :: "pyval \<Rightarrow> string" where
  "py_str PyNone = ''None''"
| "py_str (PyBool True) = ''True''"
| "py_str (PyBool False) = ''False''"
| "py_str (PyStr s) = s"

datatype pyerror =
  IndexError | AttributeError | TypeError
| FileNotFoundError string | PermissionError string | OSError string

text \<open>
  JSON documents as \<open>json.load\<close> returns them; numbers are integers here, and a
  dictionary holds its keys once.
\<close>

datatype json =
  JNull | JBool bool | JInt int | JStr string | JArr "json list" | JObj "(string \<times> json) list"

text \<open>
  The functions of the standard library that the program calls on paths and strings
  (\<open>os.path.join\<close>, \<open>os.path.normpath\<close>, \<open>os.path.dirname\<close>,
  \<open>os.path.expanduser\<close>, \<open>str.upper\<close>) are parameters of the model, and so are the
  order in which a set of strings is iterated (given the strings without duplicates)
  and the text that \<open>str\<close> gives for a list or a dictionary.
\<close>

record pylib =
  join :: "string \<Rightarrow> string list \<Rightarrow> string"
  normpath :: "string \<Rightarrow> string"
  dirname :: "string \<Rightarrow> string"
  expanduser :: "string \<Rightarrow> string"
  upper :: "string \<Rightarrow> string"
  set_order :: "string list \<Rightarrow> string list"
  container_str :: "json \<Rightarrow> string"

text \<open>
  The content of a file: a JSON document, or text that \<open>json.load\<close> rejects with the
  given message.
\<close>

datatype content = Json json | NotJson string

datatype node = Dir | File content

text \<open>
  The operating system as the program observes it: the file system (a node per path),
  \<open>os.access(p, os.W_OK)\<close>, whether creating a path or opening it for writing fails
  with an \<open>OSError\<close>, the text of the error an operation on a path raises,
  \<open>os.listdir\<close>, the registry under \<open>HKEY_LOCAL_MACHINE\<close> (per
  key, its subkeys with their \<open>InstalledDirectory\<close> value where there is one), the
  values of the environment variables, and the process id given to the next process.
\<close>

record world =
  fs :: "string \<Rightarrow> node option"
  writable :: "string \<Rightarrow> bool"
  denied :: "string \<Rightarrow> bool"
  strerror :: "string \<Rightarrow> string"
  listing :: "string \<Rightarrow> pyerror + string list"
  registry :: "string \<Rightarrow> string option list option"
  environ :: "string list"
  next_pid :: int

definition exists :: "world \<Rightarrow> string \<Rightarrow> bool" where
  "exists w p = (fs w p \<noteq> None)"

definition isdir :: "world \<Rightarrow> string \<Rightarrow> bool" where
  "isdir w p = (fs w p = Some Dir)"

text \<open>
  The signals of the two components and the commands given to the operating system, in
  the order in which they happen. \<open>log_message\<close> carries the text and the type.
\<close>

datatype event =
  log_message string string
| build_started
| build_finished bool string
| build_progress int
| process_start string "string list"
| popen string

type_synonym localization = "string \<Rightarrow> string \<Rightarrow> (string \<times> string) list \<Rightarrow> string"

text \<open>\<open>self.log(message, log_type)\<close>.\<close>

definition log :: "string \<Rightarrow> string \<Rightarrow> event list" where
  "log message log_type = [log_message message log_type]"

text \<open>
  \<open>self.localization(key, default, **kwargs) if self.localization else default\<close>.
\<close>

definition localize :: "localization option \<Rightarrow> string \<Rightarrow> string \<Rightarrow> (string \<times> string) list \<Rightarrow> string" where
  "localize l key dflt kwargs = (case l of None \<Rightarrow> dflt | Some f \<Rightarrow> f key dflt kwargs)"

text \<open>The decimal text of an integer, as an f-string renders it.\<close>

fun digits_of :: "nat \<Rightarrow> string" where
  "digits_of n = (if n < 10 then [char_of (48 + n)] else digits_of (n div 10) @ [char_of (48 + n mod 10)])"

declare digits_of.simps [simp del]

definition str_int :: "int \<Rightarrow> string" where
  "str_int i = (if i < 0 then CHR ''-'' # digits_of (nat (- i)) else digits_of (nat i))"

section \<open>The build orchestrator\<close>

datatype process_state = NotRunning | Starting | Running

record qprocess =
  program :: string
  arguments :: "string list"
  state :: process_state
  processId :: int

record builder =
  process :: "qprocess option"
  source_plugin_path :: "string option"
  output_folder :: "string option"
  target_engine_path :: "string option"
  additional_params :: "(string \<times> pyval) list"
  localization :: "localization option"

text \<open>\<open>PluginBuilder.__init__\<close>.\<close>

definition init_builder :: "localization option \<Rightarrow> builder" where
  "init_builder l = \<lparr>process = None, source_plugin_path = None, output_folder = None,
     target_engine_path = None, additional_params = [], localization = l\<rparr>"

text \<open>Python's truth value of an optional string: \<open>None\<close> and \<open>""\<close> are false.\<close>

definition truthy :: "string option \<Rightarrow> bool" where
  "truthy s = (s \<noteq> None \<and> s \<noteq> Some [])"

text \<open>
  One iteration of the loop over \<open>additional_params.items()\<close> in
  \<open>get_build_command\<close>: what the option appends to the command.
\<close>

definition option_args :: "string \<times> pyval \<Rightarrow> string list" where
  "option_args kv = (case kv of (param, v) \<Rightarrow>
     if v = PyBool True then [''-'' @ param]
     else if v \<notin> set [PyBool False, PyNone, PyStr []] then [''-'' @ param, py_str v]
     else [])"

definition uat_path_of :: "pylib \<Rightarrow> string \<Rightarrow> string" where
  "uat_path_of L target =
     normpath L (join L target [''Engine'', ''Build'', ''BatchFiles'', ''RunUAT.bat''])"

text \<open>\<open>PluginBuilder.get_build_command\<close>: the command, or \<open>None\<close>, and the log.\<close>

definition get_build_command :: "pylib \<Rightarrow> world \<Rightarrow> builder \<Rightarrow> string list option \<times> event list" where
  "get_build_command L w b =
     (if \<not> truthy (source_plugin_path b) \<or> \<not> truthy (output_folder b)
         \<or> \<not> truthy (target_engine_path b)
      then (None, log (localize (localization b) ''not_all_parameters_set''
                         ''Not all required parameters are set for building'' []) ''ERROR'')
      else
        let uat_path = uat_path_of L (the (target_engine_path b)) in
        if \<not> exists w uat_path
        then (None, log (localize (localization b) ''help_error_uat''
                           (''RunUAT.bat file not found at path: '' @ uat_path)
                           [(''0'', uat_path)]) ''ERROR'')
        else
          (Some ([uat_path, ''BuildPlugin'', ''-plugin'',
                  normpath L (the (source_plugin_path b)), ''-package'',
                  normpath L (the (output_folder b))]
                 @ concat (map option_args (additional_params b))), []))"

text \<open>\<open>" ".join(xs)\<close>.\<close>

fun join_sp :: "string list \<Rightarrow> string" where
  "join_sp [] = []"
| "join_sp [x] = x"
| "join_sp (x # y # ys) = x @ '' '' @ join_sp (y # ys)"

text \<open>\<open>value.replace("\\", "/")\<close>.\<close>

definition replace_backslash :: "string \<Rightarrow> string" where
  "replace_backslash s = map (\<lambda>c. if c = CHR 0x5C then CHR ''/'' else c) s"

text \<open>
  The loop \<open>for i in range(2, len(command), 2)\<close> of \<open>get_command_string\<close>, on
  \<open>command[2:]\<close>.
\<close>

fun format_command :: "pylib \<Rightarrow> world \<Rightarrow> string list \<Rightarrow> string list" where
  "format_command L w (param # v # rest) =
     (if exists w (dirname L v)
      then param @ ''='' @ [CHR 0x22] @ replace_backslash v @ [CHR 0x22]
      else param @ ''='' @ v) # format_command L w rest"
| "format_command L w [param] = [param]"
| "format_command L w [] = []"

datatype 'a outcome = Returned 'a | Raised pyerror

text \<open>
  \<open>PluginBuilder.get_command_string\<close>. \<open>command[1]\<close> raises \<open>IndexError\<close> on
  a command of one argument.
\<close>

definition get_command_string :: "pylib \<Rightarrow> world \<Rightarrow> builder \<Rightarrow> string outcome \<times> event list" where
  "get_command_string L w b =
     (case get_build_command L w b of
        (None, ev) \<Rightarrow> (Returned [], ev)
      | (Some command, ev) \<Rightarrow>
          (case command of
             [] \<Rightarrow> (Returned [], ev)
           | [c0] \<Rightarrow> (Raised IndexError, ev)
           | c0 # c1 # rest \<Rightarrow> (Returned (join_sp (c0 # c1 # format_command L w rest)), ev)))"

text \<open>
  The loop of \<open>build_plugin\<close> that forms the arguments of the process, on
  \<open>command[2:]\<close>. \<open>param_name[0]\<close> raises \<open>IndexError\<close> when nothing is left of
  the parameter after its dashes.
\<close>

definition lstrip_dash :: "string \<Rightarrow> string" where
  "lstrip_dash s = dropWhile (\<lambda>c. c = CHR ''-'') s"

fun format_args :: "pylib \<Rightarrow> world \<Rightarrow> string list \<Rightarrow> pyerror + string list" where
  "format_args L w (param # v # rest) =
     (let v' = (if exists w (dirname L v) then replace_backslash v else v) in
      case lstrip_dash param of
        [] \<Rightarrow> Inl IndexError
      | c # cs \<Rightarrow>
          (case format_args L w rest of
             Inl e \<Rightarrow> Inl e
           | Inr args \<Rightarrow> Inr ((''-'' @ upper L [c] @ cs @ ''='' @ v') # args)))"
| "format_args L w [param] =
     (case lstrip_dash param of
        [] \<Rightarrow> Inl IndexError
      | c # cs \<Rightarrow> Inr [''-'' @ upper L [c] @ cs])"
| "format_args L w [] = Inr []"

text \<open>
  \<open>os.makedirs(path, exist_ok=True)\<close> on a path whose parent exists: the message of
  the \<open>OSError\<close>, or the world with the directory.
\<close>

definition makedirs :: "world \<Rightarrow> string \<Rightarrow> string + world" where
  "makedirs w p =
     (if denied w p then Inl (strerror w p)
      else if exists w p then Inr w
      else Inr (w\<lparr>fs := (fs w)(p \<mapsto> Dir)\<rparr>))"

text \<open>
  \<open>PluginBuilder.build_plugin\<close>: what the call returns or raises, the world and the
  builder afterwards, and the events. \<open>additional_params or {}\<close> stores the empty map
  for \<open>None\<close>.
\<close>

definition build_plugin ::
  "pylib \<Rightarrow> world \<Rightarrow> builder \<Rightarrow> string \<Rightarrow> string \<Rightarrow> string \<Rightarrow> (string \<times> pyval) list option
   \<Rightarrow> bool outcome \<times> world \<times> builder \<times> event list" where
  "build_plugin L w b src out target params =
     (let b1 = b\<lparr>source_plugin_path := Some src, output_folder := Some out,
                  target_engine_path := Some target,
                  additional_params := (case params of None \<Rightarrow> [] | Some ps \<Rightarrow> ps)\<rparr>
      in
      if \<not> exists w src
      then (Returned False, w, b1,
            log (localize (localization b1) ''error_plugin_not_found''
                   (''Plugin file not found: '' @ src) [(''0'', src)]) ''ERROR'')
      else if \<not> writable w (dirname L out)
      then (Returned False, w, b1,
            log (''No permission to create directory in: '' @ dirname L out) ''ERROR'')
      else
        case makedirs w out of
          Inl msg \<Rightarrow>
            (Returned False, w, b1, log (''Failed to create output directory: '' @ msg) ''ERROR'')
        | Inr w1 \<Rightarrow>
            (case get_build_command L w1 b1 of
               (None, ev) \<Rightarrow> (Returned False, w1, b1, ev)
             | (Some command, ev) \<Rightarrow>
                 (case get_command_string L w1 b1 of
                    (Raised e, ev') \<Rightarrow> (Raised e, w1, b1, ev @ ev')
                  | (Returned command_str, ev') \<Rightarrow>
                      let evs = ev @ ev'
                            @ log (localize (localization b1) ''log_build_command''
                                     (''Build command: '' @ command_str) [(''0'', command_str)])
                                ''INFO''
                            @ [build_started];
                          b2 = b1\<lparr>process := Some \<lparr>program = [], arguments = [],
                                                     state = NotRunning, processId = 0\<rparr>\<rparr>
                      in
                      (case command of
                         c0 # c1 # rest \<Rightarrow>
                           (case format_args L w1 rest of
                              Inl e \<Rightarrow> (Raised e, w1, b2, evs)
                            | Inr args \<Rightarrow>
                                (Returned True,
                                 w1\<lparr>next_pid := next_pid w1 + 1\<rparr>,
                                 b1\<lparr>process := Some \<lparr>program = c0, arguments = c1 # args,
                                                         state = Starting,
                                                         processId = next_pid w1\<rparr>\<rparr>,
                                 evs @ [process_start c0 (c1 # args)]))
                       | _ \<Rightarrow> (Raised IndexError, w1, b2, evs)))))"

subsection \<open>Output of the process\<close>

text \<open>
  \<open>str.strip()\<close>, \<open>str.splitlines()\<close>, \<open>\d\<close> and the case folding of
  \<open>re.IGNORECASE\<close>, on code points below 256.
\<close>

definition is_space :: "char \<Rightarrow> bool" where
  "is_space c = (of_char c \<in> set [9, 10, 11, 12, 13, 28, 29, 30, 31, 32, 133, 160 :: nat])"

definition strip :: "string \<Rightarrow> string" where
  "strip s = rev (dropWhile is_space (rev (dropWhile is_space s)))"

definition is_linebreak :: "char \<Rightarrow> bool" where
  "is_linebreak c = (of_char c \<in> set [10, 11, 12, 13, 28, 29, 30, 133 :: nat])"

fun splitlines_from :: "string \<Rightarrow> string \<Rightarrow> string list" where
  "splitlines_from cur [] = (if cur = [] then [] else [cur])"
| "splitlines_from cur (c # cs) =
     (if is_linebreak c
      then cur # (case cs of
                    [] \<Rightarrow> splitlines_from [] cs
                  | d # ds \<Rightarrow>
                      if c = CHR 0x0D \<and> d = CHR 0x0A then splitlines_from [] ds
                      else splitlines_from [] cs)
      else splitlines_from (cur @ [c]) cs)"

definition splitlines :: "string \<Rightarrow> string list" where
  "splitlines s = splitlines_from [] s"

definition is_digit :: "char \<Rightarrow> bool" where
  "is_digit c = (48 \<le> (of_char c :: nat) \<and> (of_char c :: nat) \<le> 57)"

definition lower_char :: "char \<Rightarrow> char" where
  "lower_char c =
     (let n = (of_char c :: nat) in
      if (65 \<le> n \<and> n \<le> 90) \<or> (192 \<le> n \<and> n \<le> 222 \<and> n \<noteq> 215) then char_of (n + 32) else c)"

text \<open>
  \<open>re.match(kw, s, re.IGNORECASE)\<close> and \<open>re.search(kw, s, re.IGNORECASE)\<close> for a
  literal \<open>kw\<close>, and \<open>re.search\<close> for an alternation of literals.
\<close>

definition match_i :: "string \<Rightarrow> string \<Rightarrow> bool" where
  "match_i kw s = (length kw \<le> length s \<and> map lower_char (take (length kw) s) = map lower_char kw)"

fun search_i :: "string \<Rightarrow> string \<Rightarrow> bool" where
  "search_i kw [] = match_i kw []"
| "search_i kw (c # cs) = (match_i kw (c # cs) \<or> search_i kw cs)"

definition search_any :: "string list \<Rightarrow> string \<Rightarrow> bool" where
  "search_any kws s = list_ex (\<lambda>kw. search_i kw s) kws"

text \<open>
  The type of a line of standard output. The patterns of the source also have the
  alternatives \<open>U+043E U+0448 U+0438 U+0431 U+043A U+0430\<close> (ERROR),
  \<open>U+043F U+0440 U+0435 U+0434 U+0443 U+043F U+0440 U+0435 U+0436 U+0434 U+0435 U+043D U+0438 U+0435\<close>
  (WARNING) and \<open>U+0443 U+0441 U+043F U+0435 U+0448 U+043D U+043E\<close> (SUCCESS); their
  letters and the letters that fold to them lie above 255, so they match no line of
  this model.
\<close>

definition log_type_of :: "string \<Rightarrow> string" where
  "log_type_of line =
     (if search_any [''error'', ''failed''] line then ''ERROR''
      else if search_any [''warning''] line then ''WARNING''
      else if search_any [''success'', ''completed''] line then ''SUCCESS''
      else ''INFO'')"

text \<open>
  \<open>re.match(r'(\d+)%', s)\<close> and \<open>re.search(r'(\d+)%', s)\<close>: the group, if the
  pattern matches. \<open>\d+\<close> is greedy and what follows the digits it can give back is
  a digit, so a match at a position takes all the digits there.
\<close>

definition match_progress :: "string \<Rightarrow> string option" where
  "match_progress s =
     (let ds = takeWhile is_digit s in
      if ds \<noteq> [] \<and> take 1 (dropWhile is_digit s) = ''%'' then Some ds else None)"

fun search_progress :: "string \<Rightarrow> string option" where
  "search_progress [] = None"
| "search_progress (c # cs) =
     (case match_progress (c # cs) of Some ds \<Rightarrow> Some ds | None \<Rightarrow> search_progress cs)"

text \<open>\<open>int(ds)\<close> for a string of digits.\<close>

definition int_of_digits :: "string \<Rightarrow> int" where
  "int_of_digits ds = foldl (\<lambda>n c. 10 * n + (int (of_char c) - 48)) 0 ds"

text \<open>
  The body of the loop of \<open>_process_stdout\<close> for one line of \<open>data.splitlines()\<close>,
  and \<open>_process_stdout\<close> on the decoded data. The progress signal carries the Python
  integer.
\<close>

definition process_stdout_line :: "string \<Rightarrow> event list" where
  "process_stdout_line raw =
     (let line = strip raw in
      if line = [] then []
      else log line (log_type_of line)
           @ (case search_progress line of
                None \<Rightarrow> []
              | Some ds \<Rightarrow> [build_progress (int_of_digits ds)]))"

definition process_stdout :: "string \<Rightarrow> event list" where
  "process_stdout data = concat (map process_stdout_line (splitlines data))"

definition process_stderr_line :: "string \<Rightarrow> event list" where
  "process_stderr_line raw = (let line = strip raw in if line = [] then [] else log line ''ERROR'')"

definition process_stderr :: "string \<Rightarrow> event list" where
  "process_stderr data = concat (map process_stderr_line (splitlines data))"

subsection \<open>Completion and cancellation\<close>

text \<open>
  The messages \<open>success_msg\<close> and \<open>error_msg\<close> of \<open>_process_finished\<close> and
  \<open>cancelled_msg\<close> of \<open>cancel_build\<close>.
\<close>

definition success_msg :: "builder \<Rightarrow> string" where
  "success_msg b =
     localize (localization b) ''log_build_success'' ''Plugin build completed successfully'' []"

definition error_msg :: "builder \<Rightarrow> int \<Rightarrow> string" where
  "error_msg b exit_code =
     localize (localization b) ''log_build_error''
       (''Plugin build failed with error (code: '' @ str_int exit_code @ '')'')
       [(''0'', str_int exit_code)]"

definition cancelled_msg :: "builder \<Rightarrow> string" where
  "cancelled_msg b =
     localize (localization b) ''log_build_cancelled'' ''Plugin build cancelled by user'' []"

text \<open>\<open>PluginBuilder._process_finished\<close>; it assigns no field of the builder.\<close>

definition process_finished :: "builder \<Rightarrow> int \<Rightarrow> event list" where
  "process_finished b exit_code =
     (if exit_code = 0
      then log (success_msg b) ''SUCCESS'' @ [build_finished True (success_msg b)]
      else log (error_msg b exit_code) ''ERROR'' @ [build_finished False (error_msg b exit_code)])"

text \<open>
  \<open>shutil.rmtree(path, ignore_errors=True)\<close>: the path and what lies under it are
  gone.
\<close>

definition under :: "string \<Rightarrow> string \<Rightarrow> bool" where
  "under p q = (q = p \<or> take (length p + 1) q = p @ ''/'' \<or> take (length p + 1) q = p @ [CHR 0x5C])"

definition rmtree :: "world \<Rightarrow> string \<Rightarrow> world" where
  "rmtree w p = w\<lparr>fs := (\<lambda>q. if under p q then None else fs w q)\<rparr>"

text \<open>
  \<open>PluginBuilder.cancel_build\<close>: the result, the world afterwards and the events. No
  field of the builder is assigned.
\<close>

definition cancel_build :: "world \<Rightarrow> builder \<Rightarrow> bool \<times> world \<times> event list" where
  "cancel_build w b =
     (case process b of
        None \<Rightarrow> (False, w, [])
      | Some p \<Rightarrow>
          if state p = NotRunning then (False, w, [])
          else
            let kills = [popen (''taskkill /F /PID '' @ str_int (processId p) @ '' /T''),
                         popen ''taskkill /F /IM UnrealBuildTool.exe'',
                         popen ''taskkill /F /IM UBT.exe''];
                final = log (cancelled_msg b) ''WARNING'' @ [build_finished False (cancelled_msg b)]
            in
            if truthy (output_folder b) \<and> exists w (the (output_folder b))
            then (True, rmtree w (the (output_folder b)),
                  kills @ log (''Successfully removed folder: '' @ the (output_folder b)) ''SUCCESS''
                    @ final)
            else (True, w, kills @ final))"

subsection \<open>The handlers as the runtime calls them\<close>

text \<open>
  A build is active when the builder holds a process that is not \<open>NotRunning\<close>: the
  negation of the guard of \<open>cancel_build\<close>.
\<close>

definition active :: "builder \<Rightarrow> bool" where
  "active b = (case process b of None \<Rightarrow> False | Some p \<Rightarrow> state p \<noteq> NotRunning)"

text \<open>
  What happens to an orchestrator: the user interface calls \<open>build_plugin\<close> or
  \<open>cancel_build\<close>; the process of the handle starts, has output to read, or ends with
  an exit code. \<open>build_plugin\<close> connects the three signals of the new process to
  \<open>_process_stdout\<close>, \<open>_process_stderr\<close> and \<open>_process_finished\<close>, and no
  function of the source disconnects them; the runtime emits them for the process of
  the handle while it is active, and \<open>finished\<close> once, when the process ends, however
  it ends.
\<close>

datatype call =
  call_build_plugin string string string "(string \<times> pyval) list option"
| call_cancel_build
| process_started
| ready_read_stdout string
| ready_read_stderr string
| process_ended int

definition set_state :: "process_state \<Rightarrow> builder \<Rightarrow> builder" where
  "set_state st b = b\<lparr>process := map_option (\<lambda>p. p\<lparr>state := st\<rparr>) (process b)\<rparr>"

fun step :: "pylib \<Rightarrow> world \<times> builder \<Rightarrow> call \<Rightarrow> (world \<times> builder) \<times> event list" where
  "step L (w, b) (call_build_plugin src out target params) =
     (case build_plugin L w b src out target params of (r, w', b', ev) \<Rightarrow> ((w', b'), ev))"
| "step L (w, b) call_cancel_build =
     (case cancel_build w b of (r, w', ev) \<Rightarrow> ((w', b), ev))"
| "step L (w, b) process_started = ((w, if active b then set_state Running b else b), [])"
| "step L (w, b) (ready_read_stdout data) = ((w, b), if active b then process_stdout data else [])"
| "step L (w, b) (ready_read_stderr data) = ((w, b), if active b then process_stderr data else [])"
| "step L (w, b) (process_ended exit_code) =
     (if active b then ((w, set_state NotRunning b), process_finished b exit_code)
      else ((w, b), []))"

text \<open>The events of a sequence of calls, in order.\<close>

fun run :: "pylib \<Rightarrow> world \<times> builder \<Rightarrow> call list \<Rightarrow> event list" where
  "run L s [] = []"
| "run L s (c # cs) = (case step L s c of (s', ev) \<Rightarrow> ev @ run L s' cs)"

fun is_finished :: "event \<Rightarrow> bool" where
  "is_finished (build_finished ok msg) = True"
| "is_finished e = False"



subsection \<open>The plugin descriptor\<close>

record plugin_info =
  name :: json
  version :: json
  description :: json
  category :: json
  modules :: "json list"
  is_engine_plugin :: bool
  engine_version :: json
  marketplace_url :: json
  supported_platforms :: json

text \<open>\<open>d.get(key, default)\<close> on a dictionary.\<close>

definition dict_get :: "(string \<times> json) list \<Rightarrow> string \<Rightarrow> json \<Rightarrow> json" where
  "dict_get kvs key dflt = (case map_of kvs key of None \<Rightarrow> dflt | Some v \<Rightarrow> v)"

fun type_name :: "json \<Rightarrow> string" where
  "type_name JNull = ''NoneType''"
| "type_name (JBool b) = ''bool''"
| "type_name (JInt i) = ''int''"
| "type_name (JStr s) = ''str''"
| "type_name (JArr xs) = ''list''"
| "type_name (JObj kvs) = ''dict''"

text \<open>
  \<open>v.get(key, default)\<close> on any value: only a dictionary has the method. The error is
  the text of the \<open>AttributeError\<close>.
\<close>

definition no_attribute_get :: "json \<Rightarrow> string" where
  "no_attribute_get v =
     [CHR 0x27] @ type_name v @ [CHR 0x27] @ '' object has no attribute ''
       @ [CHR 0x27] @ ''get'' @ [CHR 0x27]"

fun py_get :: "json \<Rightarrow> string \<Rightarrow> json \<Rightarrow> string + json" where
  "py_get (JObj kvs) key dflt = Inr (dict_get kvs key dflt)"
| "py_get v key dflt = Inl (no_attribute_get v)"

text \<open>
  What \<open>for m in v\<close> iterates over: the elements of a list, the keys of a dictionary,
  the characters of a string; other values raise \<open>TypeError\<close>.
\<close>

fun py_iter :: "json \<Rightarrow> string + json list" where
  "py_iter (JArr xs) = Inr xs"
| "py_iter (JObj kvs) = Inr (map (\<lambda>kv. JStr (fst kv)) kvs)"
| "py_iter (JStr s) = Inr (map (\<lambda>c. JStr [c]) s)"
| "py_iter v = Inl ([CHR 0x27] @ type_name v @ [CHR 0x27] @ '' object is not iterable'')"

text \<open>\<open>[m.get("Name") for m in ms]\<close>.\<close>

fun module_names :: "json list \<Rightarrow> string + json list" where
  "module_names [] = Inr []"
| "module_names (m # ms) =
     (case py_get m ''Name'' JNull of
        Inl e \<Rightarrow> Inl e
      | Inr n \<Rightarrow> (case module_names ms of Inl e \<Rightarrow> Inl e | Inr ns \<Rightarrow> Inr (n # ns)))"

text \<open>The dictionary \<open>info\<close> of \<open>extract_plugin_info\<close>, from the loaded document.\<close>

definition plugin_info_of :: "json \<Rightarrow> string + plugin_info" where
  "plugin_info_of plugin_data =
     (case plugin_data of
        JObj kvs \<Rightarrow>
          (case py_iter (dict_get kvs ''Modules'' (JArr [])) of
             Inl e \<Rightarrow> Inl e
           | Inr ms \<Rightarrow>
               (case module_names ms of
                  Inl e \<Rightarrow> Inl e
                | Inr ns \<Rightarrow>
                    Inr \<lparr>name = dict_get kvs ''FriendlyName'' (JStr ''Unknown Plugin''),
                         version = dict_get kvs ''Version'' (JInt 0),
                         description = dict_get kvs ''Description'' (JStr []),
                         category = dict_get kvs ''Category'' (JStr []),
                         modules = ns,
                         is_engine_plugin = (dict_get kvs ''EngineVersion'' (JStr []) \<noteq> JStr []),
                         engine_version = dict_get kvs ''EngineVersion'' (JStr []),
                         marketplace_url = dict_get kvs ''MarketplaceURL'' (JStr []),
                         supported_platforms = dict_get kvs ''SupportedTargetPlatforms'' (JArr [])\<rparr>))
      | v \<Rightarrow> Inl (no_attribute_get v))"

text \<open>
  \<open>PluginBuilder.extract_plugin_info\<close>: the information or \<open>None\<close>, and the log. Every
  exception is caught and logged.
\<close>

definition extract_plugin_info :: "world \<Rightarrow> string \<Rightarrow> plugin_info option \<times> event list" where
  "extract_plugin_info w plugin_path =
     (case fs w plugin_path of
        Some (File (Json plugin_data)) \<Rightarrow>
          (case plugin_info_of plugin_data of
             Inr info \<Rightarrow> (Some info, [])
           | Inl e \<Rightarrow> (None, log (''Error reading plugin information: '' @ e) ''ERROR''))
      | Some (File (NotJson e)) \<Rightarrow> (None, log (''Error reading plugin information: '' @ e) ''ERROR'')
      | _ \<Rightarrow> (None, log (''Error reading plugin information: '' @ strerror w plugin_path) ''ERROR''))"

section \<open>The discovery engine\<close>

record finder =
  config_file :: string
  found_engines :: "(string \<times> string) list"
  finder_localization :: "localization option"

text \<open>\<open>CONFIG_FILE\<close> and \<open>EngineFinder.__init__\<close>.\<close>

definition CONFIG_FILE :: string where
  "CONFIG_FILE = ''unreal_engines_config.json''"

definition init_finder :: "localization option \<Rightarrow> string option \<Rightarrow> finder" where
  "init_finder l config_path =
     \<lparr>config_file = (if truthy config_path then the config_path else CONFIG_FILE),
      found_engines = [], finder_localization = l\<rparr>"

definition STANDARD_PATHS :: "pylib \<Rightarrow> string list" where
  "STANDARD_PATHS L =
     [''C:/Program Files/Epic Games'', ''C:/Epic Games'', expanduser L ''~/Epic Games'',
      ''D:/Epic Games'']"

definition REGISTRY_PATHS :: "string list" where
  "REGISTRY_PATHS =
     [''SOFTWARE'' @ [CHR 0x5C] @ ''EpicGames'' @ [CHR 0x5C] @ ''Unreal Engine'',
      ''SOFTWARE'' @ [CHR 0x5C] @ ''EpicGames'']"

definition POSSIBLE_ENGINE_NAMES :: "string list" where
  "POSSIBLE_ENGINE_NAMES = [''Unreal'', ''UE_'', ''UE5'', ''UE4'']"

text \<open>\<open>EngineFinder.is_valid_engine_path\<close>.\<close>

definition is_valid_engine_path :: "pylib \<Rightarrow> world \<Rightarrow> string \<Rightarrow> bool" where
  "is_valid_engine_path L w engine_path =
     (let uat_path = join L engine_path [''Engine'', ''Build'', ''BatchFiles'', ''RunUAT.bat''];
          ue_editor_path = join L engine_path [''Engine'', ''Binaries'', ''Win64'', ''UnrealEditor.exe''];
          ue4_editor_path = join L engine_path [''Engine'', ''Binaries'', ''Win64'', ''UE4Editor.exe'']
      in
      if \<not> exists w uat_path then False
      else
        let has_editor = (exists w ue_editor_path \<or> exists w ue4_editor_path);
            required_dirs = [join L engine_path [''Engine'', ''Content''],
                             join L engine_path [''Engine'', ''Plugins''],
                             join L engine_path [''Engine'', ''Source'']];
            dirs_exist = list_all (isdir w) required_dirs
        in has_editor \<and> dirs_exist)"

text \<open>
  The body of the inner loop of \<open>find_unreal_in_registry\<close> for one subkey, given its
  \<open>InstalledDirectory\<close>: the paths appended and the log. A subkey without the value
  raises \<open>FileNotFoundError\<close>, and the loop continues.
\<close>

definition registry_subkey :: "pylib \<Rightarrow> world \<Rightarrow> finder \<Rightarrow> string option \<Rightarrow> string list \<times> event list" where
  "registry_subkey L w f sub =
     (case sub of
        None \<Rightarrow> ([], [])
      | Some install_path \<Rightarrow>
          if exists w install_path \<and> is_valid_engine_path L w install_path
          then ([install_path],
                log (localize (finder_localization f) ''log_engine_found_registry''
                       (''Unreal Engine found in registry: '' @ install_path)
                       [(''0'', install_path)]) ''SUCCESS'')
          else ([], []))"

text \<open>The paths and the log of a loop are those of its iterations, in order.\<close>

definition collect :: "('a \<Rightarrow> string list \<times> event list) \<Rightarrow> 'a list \<Rightarrow> string list \<times> event list" where
  "collect body xs = (concat (map (\<lambda>x. fst (body x)) xs), concat (map (\<lambda>x. snd (body x)) xs))"

definition registry_key :: "pylib \<Rightarrow> world \<Rightarrow> finder \<Rightarrow> string \<Rightarrow> string list \<times> event list" where
  "registry_key L w f reg_path =
     (case registry w reg_path of
        None \<Rightarrow> ([], [])
      | Some subkeys \<Rightarrow> collect (registry_subkey L w f) subkeys)"

text \<open>\<open>EngineFinder.find_unreal_in_registry\<close>.\<close>

definition find_unreal_in_registry :: "pylib \<Rightarrow> world \<Rightarrow> finder \<Rightarrow> string list \<times> event list" where
  "find_unreal_in_registry L w f =
     (let log_msg = (case finder_localization f of
                       Some l \<Rightarrow> l ''log_engines_search_start'' ''Starting Unreal Engine search...'' []
                     | None \<Rightarrow> ''Starting Unreal Engine search in registry...'');
          found = collect (registry_key L w f) REGISTRY_PATHS
      in
      (fst found,
       log log_msg ''INFO'' @ snd found
         @ (if fst found = []
            then log (localize (finder_localization f) ''log_engine_not_found_registry''
                        ''Unreal Engine not found in registry.'' []) ''INFO''
            else [])))"

text \<open>\<open>sub in s\<close> for strings.\<close>

fun is_substring :: "string \<Rightarrow> string \<Rightarrow> bool" where
  "is_substring sub [] = (sub = [])"
| "is_substring sub (c # cs) = (take (length sub) (c # cs) = sub \<or> is_substring sub cs)"

definition env_var :: "pylib \<Rightarrow> world \<Rightarrow> finder \<Rightarrow> string \<Rightarrow> string list \<times> event list" where
  "env_var L w f var =
     (if list_ex (\<lambda>engine_name. is_substring engine_name var) POSSIBLE_ENGINE_NAMES
      then (if exists w var \<and> is_valid_engine_path L w var
            then ([var],
                  log (localize (finder_localization f) ''log_engine_found_env''
                         (''Unreal Engine found through environment variables: '' @ var)
                         [(''0'', var)]) ''SUCCESS'')
            else ([], []))
      else ([], []))"

text \<open>\<open>EngineFinder.find_unreal_in_env_vars\<close>.\<close>

definition find_unreal_in_env_vars :: "pylib \<Rightarrow> world \<Rightarrow> finder \<Rightarrow> string list \<times> event list" where
  "find_unreal_in_env_vars L w f =
     (let found = collect (env_var L w f) (environ w) in
      (fst found,
       log ''Checking environment variables...'' ''INFO'' @ snd found
         @ (if fst found = []
            then log (localize (finder_localization f) ''log_engine_not_found_env''
                        ''Unreal Engine not found in environment variables.'' []) ''INFO''
            else [])))"

definition standard_subdir :: "pylib \<Rightarrow> world \<Rightarrow> finder \<Rightarrow> string \<Rightarrow> string \<Rightarrow> string list \<times> event list" where
  "standard_subdir L w f base_path subdir =
     (let engine_path = join L base_path [subdir] in
      if is_valid_engine_path L w engine_path
      then ([engine_path],
            log (localize (finder_localization f) ''log_engine_found_standard''
                   (''Unreal Engine found: '' @ engine_path) [(''0'', engine_path)]) ''SUCCESS'')
      else ([], []))"

text \<open>
  The loop of \<open>find_unreal_in_standard_paths\<close> over the base paths, with the paths
  found and the log so far. \<open>FileNotFoundError\<close> and \<open>PermissionError\<close> of
  \<open>os.listdir\<close> are logged; any other error leaves the function.
\<close>

fun standard_loop ::
  "pylib \<Rightarrow> world \<Rightarrow> finder \<Rightarrow> string list \<Rightarrow> string list \<Rightarrow> event list
   \<Rightarrow> string list outcome \<times> event list" where
  "standard_loop L w f [] found ev = (Returned found, ev)"
| "standard_loop L w f (base_path # rest) found ev =
     (if exists w base_path
      then (case listing w base_path of
              Inr subdirs \<Rightarrow>
                (let r = collect (standard_subdir L w f base_path) subdirs in
                 standard_loop L w f rest (found @ fst r) (ev @ snd r))
            | Inl (FileNotFoundError e) \<Rightarrow>
                standard_loop L w f rest found
                  (ev @ log (''Error accessing '' @ base_path @ '': '' @ e) ''WARNING'')
            | Inl (PermissionError e) \<Rightarrow>
                standard_loop L w f rest found
                  (ev @ log (''Error accessing '' @ base_path @ '': '' @ e) ''WARNING'')
            | Inl e \<Rightarrow> (Raised e, ev))
      else standard_loop L w f rest found ev)"

text \<open>\<open>EngineFinder.find_unreal_in_standard_paths\<close>.\<close>

definition find_unreal_in_standard_paths :: "pylib \<Rightarrow> world \<Rightarrow> finder \<Rightarrow> string list outcome \<times> event list" where
  "find_unreal_in_standard_paths L w f =
     (case standard_loop L w f (STANDARD_PATHS L) []
             (log ''Searching standard installation paths...'' ''INFO'') of
        (Returned found, ev) \<Rightarrow>
          (Returned found,
           ev @ (if found = []
                 then log (localize (finder_localization f) ''log_engine_not_found_standard''
                             ''Unreal Engine not found in standard paths.'' []) ''INFO''
                 else []))
      | (Raised e, ev) \<Rightarrow> (Raised e, ev))"

text \<open>
  \<open>re.match(r'\d+\.\d+', s)\<close>, \<open>re.match(r'UE_?(\d+\.\d+)', s)\<close> and
  \<open>re.search(r'UE_?(\d+\.\d+)', s)\<close>: the text of the group.
\<close>

definition match_number :: "string \<Rightarrow> string option" where
  "match_number s =
     (let major = takeWhile is_digit s; rest = dropWhile is_digit s;
          minor = takeWhile is_digit (drop 1 rest)
      in if major \<noteq> [] \<and> take 1 rest = ''.'' \<and> minor \<noteq> [] then Some (major @ ''.'' @ minor)
         else None)"

definition match_version :: "string \<Rightarrow> string option" where
  "match_version s =
     (if take 3 s = ''UE_'' \<and> match_number (drop 3 s) \<noteq> None then match_number (drop 3 s)
      else if take 2 s = ''UE'' then match_number (drop 2 s)
      else None)"

fun search_version :: "string \<Rightarrow> string option" where
  "search_version [] = None"
| "search_version (c # cs) =
     (case match_version (c # cs) of Some v \<Rightarrow> Some v | None \<Rightarrow> search_version cs)"

text \<open>What an f-string puts for a value of a JSON document.\<close>

definition format_json :: "pylib \<Rightarrow> json \<Rightarrow> string" where
  "format_json L v =
     (case v of
        JNull \<Rightarrow> ''None''
      | JBool b \<Rightarrow> (if b then ''True'' else ''False'')
      | JInt i \<Rightarrow> str_int i
      | JStr s \<Rightarrow> s
      | _ \<Rightarrow> container_str L v)"

text \<open>
  \<open>EngineFinder.extract_version_from_path\<close>: the version, or \<open>None\<close>, and the log.
\<close>

definition extract_version_from_path :: "pylib \<Rightarrow> world \<Rightarrow> string \<Rightarrow> string option \<times> event list" where
  "extract_version_from_path L w path0 =
     (let engine_path =
            (if \<not> exists w (join L path0 [''Engine'']) \<and> is_substring ''Engine'' path0
             then dirname L (dirname L path0) else path0)
      in
      case search_version engine_path of
        Some v \<Rightarrow> (Some v, [])
      | None \<Rightarrow>
          let version_file = join L engine_path [''Engine'', ''Build'', ''Build.version''] in
          (case fs w version_file of
             None \<Rightarrow> (None, [])
           | Some Dir \<Rightarrow>
               (None, log (''Error reading version file: '' @ strerror w version_file) ''WARNING'')
           | Some (File (NotJson e)) \<Rightarrow>
               (None, log (''Error reading version file: '' @ e) ''WARNING'')
           | Some (File (Json version_data)) \<Rightarrow>
               (case version_data of
                  JObj kvs \<Rightarrow>
                    (Some (format_json L (dict_get kvs ''MajorVersion'' (JInt 0)) @ ''.''
                             @ format_json L (dict_get kvs ''MinorVersion'' (JInt 0))), [])
                | v \<Rightarrow>
                    (None, log (''Error reading version file: '' @ no_attribute_get v) ''WARNING''))))"
text \<open>
  The document that \<open>json.dump({"unreal_engines": engines_data}, file)\<close> writes, and
  \<open>EngineFinder.save_config\<close>: the result, the world afterwards and the log.
\<close>

definition config_data_of :: "(string \<times> string) list \<Rightarrow> json" where
  "config_data_of engines_data =
     JObj [(''unreal_engines'', JObj (map (\<lambda>kv. (fst kv, JStr (snd kv))) engines_data))]"

definition save_config :: "pylib \<Rightarrow> world \<Rightarrow> finder \<Rightarrow> (string \<times> string) list \<Rightarrow> bool \<times> world \<times> event list" where
  "save_config L w f engines_data =
     (let config_dir = dirname L (config_file f) in
      if \<not> writable w config_dir
      then (False, w, log (''No write permission for config directory: '' @ config_dir) ''ERROR'')
      else if exists w (config_file f) \<and> \<not> writable w (config_file f)
      then (False, w, log (''No write permission for config file: '' @ config_file f) ''ERROR'')
      else if denied w (config_file f)
      then (False, w,
            log (''Error saving engine configuration: '' @ strerror w (config_file f)) ''ERROR'')
      else (True,
            w\<lparr>fs := (fs w)(config_file f \<mapsto> File (Json (config_data_of engines_data)))\<rparr>,
            log (''Unreal Engine paths saved to '' @ config_file f) ''INFO''))"

text \<open>
  \<open>EngineFinder.load_config\<close>: what it returns or raises, and the log. Only
  \<open>json.JSONDecodeError\<close> is caught; a path that is not a file raises on \<open>open\<close>,
  and a document that is not a dictionary has no \<open>get\<close>.
\<close>

definition load_config :: "world \<Rightarrow> finder \<Rightarrow> json outcome \<times> event list" where
  "load_config w f =
     (let check = log (localize (finder_localization f) ''log_config_check''
                         ''Checking configuration file...'' []) ''INFO''
      in
      case fs w (config_file f) of
        None \<Rightarrow>
          (Returned (JObj []),
           check @ log (localize (finder_localization f) ''log_config_not_found''
                          ''Configuration file not found.'' []) ''INFO'')
      | Some Dir \<Rightarrow> (Raised (OSError (strerror w (config_file f))), check)
      | Some (File (NotJson e)) \<Rightarrow>
          (Returned (JObj []), check @ log (''Error reading configuration file: '' @ e) ''WARNING'')
      | Some (File (Json config_data)) \<Rightarrow>
          (case config_data of
             JObj kvs \<Rightarrow>
               (Returned (dict_get kvs ''unreal_engines'' (JObj [])),
                check @ log (localize (finder_localization f) ''log_config_loaded''
                               ''Configuration file loaded successfully.'' []) ''INFO'')
           | _ \<Rightarrow>
               (Raised AttributeError,
                check @ log (localize (finder_localization f) ''log_config_loaded''
                               ''Configuration file loaded successfully.'' []) ''INFO'')))"

text \<open>\<open>d[k] = v\<close> on a dictionary: a key keeps its place, a new key goes last.\<close>

fun dict_set :: "('k \<times> 'v) list \<Rightarrow> 'k \<Rightarrow> 'v \<Rightarrow> ('k \<times> 'v) list" where
  "dict_set [] k v = [(k, v)]"
| "dict_set ((k', v') # kvs) k v = (if k' = k then (k, v) # kvs else (k', v') # dict_set kvs k v)"

text \<open>Python's truth value of a value of a JSON document.\<close>

fun json_truthy :: "json \<Rightarrow> bool" where
  "json_truthy JNull = False"
| "json_truthy (JBool b) = b"
| "json_truthy (JInt i) = (i \<noteq> 0)"
| "json_truthy (JStr s) = (s \<noteq> [])"
| "json_truthy (JArr xs) = (xs \<noteq> [])"
| "json_truthy (JObj kvs) = (kvs \<noteq> [])"

text \<open>
  The loop of \<open>find_all_engines\<close> over \<open>saved_engines.items()\<close>, with
  \<open>valid_engines\<close> and the log so far. \<open>os.path.exists\<close> raises \<open>TypeError\<close> on a
  path that is no string (a number, which it would take for a file descriptor, is
  treated alike).
\<close>

fun revalidate ::
  "pylib \<Rightarrow> world \<Rightarrow> (string \<times> json) list \<Rightarrow> (string \<times> string) list \<Rightarrow> event list
   \<Rightarrow> (string \<times> string) list outcome \<times> event list" where
  "revalidate L w [] valid_engines ev = (Returned valid_engines, ev)"
| "revalidate L w ((ver, JStr path) # rest) valid_engines ev =
     (if exists w path \<and> is_valid_engine_path L w path
      then revalidate L w rest (dict_set valid_engines ver path) ev
      else revalidate L w rest valid_engines
             (ev @ log (''Engine version '' @ ver @ '' at path '' @ path
                          @ '' is no longer valid or complete'') ''WARNING''))"
| "revalidate L w ((ver, v) # rest) valid_engines ev = (Raised TypeError, ev)"

text \<open>
  The loop of \<open>_process_found_paths\<close>, with \<open>result\<close> and the log so far, and
  \<open>EngineFinder._process_found_paths\<close>: the result, the world and the finder
  afterwards, and the log.
\<close>

fun found_loop ::
  "pylib \<Rightarrow> world \<Rightarrow> finder \<Rightarrow> string list \<Rightarrow> (string \<times> string) list \<Rightarrow> event list
   \<Rightarrow> (string \<times> string) list \<times> event list" where
  "found_loop L w f [] result ev = (result, ev)"
| "found_loop L w f (path # rest) result ev =
     (case extract_version_from_path L w path of
        (ver, ev') \<Rightarrow>
          if truthy ver
          then let normalized_path =
                     (if \<not> exists w (join L path [''Engine'']) then dirname L (dirname L path)
                      else path)
               in found_loop L w f rest (dict_set result (the ver) normalized_path)
                    (ev @ ev'
                       @ log (localize (finder_localization f) ''found_engine_version''
                                (''Found Unreal Engine version '' @ the ver @ '': ''
                                   @ normalized_path)
                                [(''0'', the ver), (''1'', normalized_path)]) ''SUCCESS'')
          else found_loop L w f rest result (ev @ ev'))"

definition process_found_paths ::
  "pylib \<Rightarrow> world \<Rightarrow> finder \<Rightarrow> string list
   \<Rightarrow> (string \<times> string) list \<times> world \<times> finder \<times> event list" where
  "process_found_paths L w f paths =
     (case found_loop L w f paths [] [] of
        (result, ev) \<Rightarrow>
          if result \<noteq> []
          then (case save_config L w f result of
                  (saved, w', ev') \<Rightarrow> (result, w', f\<lparr>found_engines := result\<rparr>, ev @ ev'))
          else (result, w, f, ev))"

text \<open>
  The first step of \<open>find_all_engines\<close>, on the configuration file: \<open>Some\<close> of what
  the function returns or raises there, or \<open>None\<close> when it goes on to search; with the
  finder and the log.
\<close>

definition load_step ::
  "pylib \<Rightarrow> world \<Rightarrow> finder \<Rightarrow> bool
   \<Rightarrow> (string \<times> string) list outcome option \<times> finder \<times> event list" where
  "load_step L w f force_rescan =
     (if \<not> force_rescan
      then (case load_config w f of
              (Raised e, ev) \<Rightarrow> (Some (Raised e), f, ev)
            | (Returned saved_engines, ev) \<Rightarrow>
                if json_truthy saved_engines
                then let ev1 = ev @ log (localize (finder_localization f) ''log_engines_loaded''
                                           ''Unreal Engine paths loaded from configuration'' [])
                                      ''SUCCESS''
                     in (case saved_engines of
                           JObj kvs \<Rightarrow>
                             (case revalidate L w kvs [] ev1 of
                                (Raised e, ev2) \<Rightarrow> (Some (Raised e), f, ev2)
                              | (Returned valid_engines, ev2) \<Rightarrow>
                                  if valid_engines \<noteq> []
                                  then (Some (Returned valid_engines),
                                        f\<lparr>found_engines := valid_engines\<rparr>, ev2)
                                  else (None, f,
                                        ev2 @ log (localize (finder_localization f)
                                                     ''log_paths_invalid''
                                                     ''Saved paths are invalid, performing new search''
                                                     []) ''WARNING''))
                         | _ \<Rightarrow> (Some (Raised AttributeError), f, ev1))
                else (None, f, ev))
      else (None, f, log ''Forced rescan requested. Ignoring configuration file.'' ''INFO''))"

text \<open>
  The search of \<open>find_all_engines\<close>, steps 2 to 5: registry, environment variables,
  standard paths.
\<close>

definition search_step ::
  "pylib \<Rightarrow> world \<Rightarrow> finder \<Rightarrow> bool
   \<Rightarrow> (string \<times> string) list outcome \<times> world \<times> finder \<times> event list" where
  "search_step L w f stop_on_first =
     (case find_unreal_in_registry L w f of
        (registry_paths, ev1) \<Rightarrow>
          if stop_on_first \<and> registry_paths \<noteq> []
          then (case process_found_paths L w f [hd registry_paths] of
                  (r, w', f', ev) \<Rightarrow> (Returned r, w', f', ev1 @ ev))
          else
            (case find_unreal_in_env_vars L w f of
               (env_paths, ev2) \<Rightarrow>
                 if stop_on_first \<and> env_paths \<noteq> []
                 then (case process_found_paths L w f [hd env_paths] of
                         (r, w', f', ev) \<Rightarrow> (Returned r, w', f', ev1 @ ev2 @ ev))
                 else
                   (case find_unreal_in_standard_paths L w f of
                      (Raised e, ev3) \<Rightarrow> (Raised e, w, f, ev1 @ ev2 @ ev3)
                    | (Returned standard_paths, ev3) \<Rightarrow>
                        if stop_on_first \<and> standard_paths \<noteq> []
                        then (case process_found_paths L w f [hd standard_paths] of
                                (r, w', f', ev) \<Rightarrow> (Returned r, w', f', ev1 @ ev2 @ ev3 @ ev))
                        else
                          let all_paths = remdups (registry_paths @ env_paths @ standard_paths) in
                          if all_paths = []
                          then (Returned [], w, f,
                                ev1 @ ev2 @ ev3
                                  @ log (localize (finder_localization f) ''quick_search_failed''
                                           ''Quick search methods failed to find Unreal Engine installations.''
                                           []) ''INFO''
                                  @ log (localize (finder_localization f) ''manual_entry_required''
                                           ''Manual entry will be required.'' []) ''INFO'')
                          else (case process_found_paths L w f (set_order L all_paths) of
                                  (r, w', f', ev) \<Rightarrow>
                                    (Returned r, w', f', ev1 @ ev2 @ ev3 @ ev)))))"

text \<open>
  \<open>EngineFinder.find_all_engines\<close>: what it returns or raises, the world and the
  finder afterwards, and the log.
\<close>

definition find_all_engines ::
  "pylib \<Rightarrow> world \<Rightarrow> finder \<Rightarrow> bool \<Rightarrow> bool
   \<Rightarrow> (string \<times> string) list outcome \<times> world \<times> finder \<times> event list" where
  "find_all_engines L w f stop_on_first force_rescan =
     (let start = log ''Starting search for installed Unreal Engine instances...'' ''INFO'' in
      case load_step L w f force_rescan of
        (Some res, f', ev) \<Rightarrow> (res, w, f', start @ ev)
      | (None, f', ev) \<Rightarrow>
          (case search_step L w f' stop_on_first of
             (res, w', f'', ev') \<Rightarrow> (res, w', f'', start @ ev @ ev')))"

section \<open>The encoding of options in the words of the specification\<close>

text \<open>
  The specification's encoding of one option: \<open>true\<close> gives the bare flag; \<open>false\<close>,
  \<open>None\<close> and the empty string give nothing; any other value gives the flag and the
  value.
\<close>

fun spec_option_args :: "string \<times> pyval \<Rightarrow> string list" where
  "spec_option_args (key, PyBool True) = [''-'' @ key]"
| "spec_option_args (key, PyBool False) = []"
| "spec_option_args (key, PyNone) = []"
| "spec_option_args (key, PyStr s) = (if s = [] then [] else [''-'' @ key, s])"

section \<open>A workstation for the examples\<close>

text \<open>
  An instance of the library functions that agrees with the Windows ones on the paths of
  the examples, which are absolute, normal and written with backslashes.
\<close>

definition win :: "string \<Rightarrow> string" where
  "win s = map (\<lambda>c. if c = CHR ''/'' then CHR 0x5C else c) s"

definition is_sep :: "char \<Rightarrow> bool" where
  "is_sep c = (c = CHR ''/'' \<or> c = CHR 0x5C)"

definition upper_char :: "char \<Rightarrow> char" where
  "upper_char c =
     (let n = (of_char c :: nat) in if 97 \<le> n \<and> n \<le> 122 then char_of (n - 32) else c)"

definition ntlib :: pylib where
  "ntlib =
     \<lparr>join = (\<lambda>p parts. foldl (\<lambda>a c. a @ [CHR 0x5C] @ c) p parts),
      normpath = win,
      dirname = (\<lambda>p. rev (drop 1 (dropWhile (\<lambda>c. \<not> is_sep c) (rev p)))),
      expanduser = (\<lambda>p. win ''C:/Users/dev'' @ drop 1 p),
      upper = map upper_char,
      set_order = (\<lambda>xs. xs),
      container_str = (\<lambda>v. [])\<rparr>"

text \<open>
  A workstation with one engine at \<open>C:\UE_5.3\<close>, a plugin descriptor that is the
  empty JSON object, and a writable directory for the output.
\<close>

definition demo_engine :: string where
  "demo_engine = win ''C:/UE_5.3''"

definition demo_plugin :: string where
  "demo_plugin = win ''C:/plugins/Foo/Foo.uplugin''"

definition demo_output :: string where
  "demo_output = win ''C:/plugins/Foo_5.3''"

definition demo_config :: string where
  "demo_config = win ''C:/cfg/unreal_engines_config.json''"

definition demo_files :: "(string \<times> node) list" where
  "demo_files =
     [(win ''C:/UE_5.3'', Dir),
      (win ''C:/UE_5.3/Engine'', Dir),
      (win ''C:/UE_5.3/Engine/Build/BatchFiles/RunUAT.bat'', File (NotJson [])),
      (win ''C:/UE_5.3/Engine/Binaries/Win64/UnrealEditor.exe'', File (NotJson [])),
      (win ''C:/UE_5.3/Engine/Content'', Dir),
      (win ''C:/UE_5.3/Engine/Plugins'', Dir),
      (win ''C:/UE_5.3/Engine/Source'', Dir),
      (win ''C:/plugins'', Dir),
      (win ''C:/plugins/Foo'', Dir),
      (win ''C:/plugins/Foo/Foo.uplugin'', File (Json (JObj []))),
      (win ''C:/cfg'', Dir)]"

definition demo_world :: world where
  "demo_world =
     \<lparr>fs = map_of demo_files,
      writable = (\<lambda>p. p = win ''C:/plugins'' \<or> p = win ''C:/cfg''),
      denied = (\<lambda>p. False),
      strerror = (\<lambda>p. ''No such file or directory''),
      listing = (\<lambda>p. Inr []),
      registry = (\<lambda>k. None),
      environ = [],
      next_pid = 4242\<rparr>"

definition demo_build :: call where
  "demo_build = call_build_plugin demo_plugin demo_output demo_engine None"

definition demo_builder :: builder where
  "demo_builder = (init_builder None)
     \<lparr>source_plugin_path := Some demo_plugin, output_folder := Some demo_output,
      target_engine_path := Some demo_engine,
      additional_params := [(''Strict'', PyBool True), (''TargetPlatforms'', PyStr ''Win64+Linux''),
                            (''Foo'', PyBool False), (''Bar'', PyStr []), (''Baz'', PyNone)]\<rparr>"

text \<open>A call of \<open>build_plugin\<close> for a descriptor that does not exist.\<close>

definition failing_build :: "bool outcome \<times> world \<times> builder \<times> event list" where
  "failing_build =
     build_plugin ntlib demo_world (init_builder None) ''nowhere.uplugin'' demo_output demo_engine
       (Some [(''Strict'', PyBool True)])"

text \<open>The workstation with a descriptor whose list of modules holds a string.\<close>

definition demo_descriptor :: world where
  "demo_descriptor =
     demo_world\<lparr>fs := (fs demo_world)
       (demo_plugin \<mapsto> File (Json (JObj [(''Modules'', JArr [JStr ''Core''])])))\<rparr>"

text \<open>
  A descriptor's \<open>Modules\<close> entry that \<open>extract_plugin_info\<close> can read: absent, or a
  list of objects.
\<close>

fun is_object :: "json \<Rightarrow> bool" where
  "is_object (JObj kvs) = True"
| "is_object v = False"

definition modules_well_formed :: "(string \<times> json) list \<Rightarrow> bool" where
  "modules_well_formed kvs =
     (case map_of kvs ''Modules'' of
        None \<Rightarrow> True
      | Some (JArr ms) \<Rightarrow> list_all is_object ms
      | Some v \<Rightarrow> False)"


text \<open>
  The workstation and the builder after a first call of \<open>build_plugin\<close>, a second call
  while the first process is there, and a build that is cancelled before its process is
  reported to have ended with exit code 1.
\<close>

definition after_first_build :: "world \<times> builder" where
  "after_first_build = fst (step ntlib (demo_world, init_builder None) demo_build)"


definition cancelled_run :: "event list" where
  "cancelled_run =
     run ntlib (demo_world, init_builder None) [demo_build, call_cancel_build, process_ended 1]"

fun is_build_call :: "call \<Rightarrow> bool" where
  "is_build_call (call_build_plugin src out target params) = True"
| "is_build_call c = False"

text \<open>
  A saved entry whose path exists and is a valid engine, and the log of
  \<open>find_all_engines\<close> when it returns the saved entries.
\<close>

definition path_valid :: "pylib \<Rightarrow> world \<Rightarrow> string \<times> string \<Rightarrow> bool" where
  "path_valid L w kv = (exists w (snd kv) \<and> is_valid_engine_path L w (snd kv))"

definition reload_log :: "finder \<Rightarrow> event list" where
  "reload_log f =
     [log_message ''Starting search for installed Unreal Engine instances...'' ''INFO'',
      log_message (localize (finder_localization f) ''log_config_check''
                     ''Checking configuration file...'' []) ''INFO'',
      log_message (localize (finder_localization f) ''log_config_loaded''
                     ''Configuration file loaded successfully.'' []) ''INFO'',
      log_message (localize (finder_localization f) ''log_engines_loaded''
                     ''Unreal Engine paths loaded from configuration'' []) ''SUCCESS'']"

text \<open>
  The workstation with the engine's path in an environment variable, a finder with its
  configuration file in \<open>C:\cfg\<close>, and a forced search there.
\<close>

definition scan_world :: world where
  "scan_world = demo_world\<lparr>environ := [demo_engine]\<rparr>"

definition demo_finder :: finder where
  "demo_finder = init_finder None (Some demo_config)"

definition first_scan :: "(string \<times> string) list outcome \<times> world \<times> finder \<times> event list" where
  "first_scan = find_all_engines ntlib scan_world demo_finder False True"

section \<open>Properties of the discovery engine\<close>

text \<open>
  C1. \<open>is_valid_engine_path\<close> holds of a path exactly when five conditions hold under
  it: \<open>Engine/Build/BatchFiles/RunUAT.bat\<close> exists, one of
  \<open>Engine/Binaries/Win64/UnrealEditor.exe\<close> and \<open>Engine/Binaries/Win64/UE4Editor.exe\<close>
  exists, and \<open>Engine/Content\<close>, \<open>Engine/Plugins\<close> and \<open>Engine/Source\<close> are
  directories. Nothing but the presence of these nodes is looked at.
\<close>

theorem is_valid_engine_path_iff:
  "is_valid_engine_path L w P =
     (exists w (join L P [''Engine'', ''Build'', ''BatchFiles'', ''RunUAT.bat''])
      \<and> (exists w (join L P [''Engine'', ''Binaries'', ''Win64'', ''UnrealEditor.exe''])
         \<or> exists w (join L P [''Engine'', ''Binaries'', ''Win64'', ''UE4Editor.exe'']))
      \<and> isdir w (join L P [''Engine'', ''Content''])
      \<and> isdir w (join L P [''Engine'', ''Plugins''])
      \<and> isdir w (join L P [''Engine'', ''Source'']))"
  by (simp add: is_valid_engine_path_def Let_def)

lemma demo_engine_valid: "is_valid_engine_path ntlib demo_world demo_engine"
  by code_simp

lemma demo_plugins_invalid: "\<not> is_valid_engine_path ntlib demo_world (win ''C:/plugins'')"
  by code_simp

theorem is_valid_engine_path_iff_witness:
  "is_valid_engine_path ntlib demo_world demo_engine
   \<and> exists demo_world (join ntlib demo_engine [''Engine'', ''Build'', ''BatchFiles'', ''RunUAT.bat''])
   \<and> isdir demo_world (join ntlib demo_engine [''Engine'', ''Source''])
   \<and> \<not> is_valid_engine_path ntlib demo_world (win ''C:/plugins'')"
  using is_valid_engine_path_iff [of ntlib demo_world demo_engine]
    demo_engine_valid demo_plugins_invalid
  by simp

subsection \<open>The configuration file\<close>

lemma dict_set_fresh: "k \<notin> fst ` set kvs \<Longrightarrow> dict_set kvs k v = kvs @ [(k, v)]"
  by (induction kvs) auto

lemma dict_set_keys: "fst ` set (dict_set kvs k v) = insert k (fst ` set kvs)"
proof (induction kvs)
  case Nil
  then show ?case by simp
next
  case (Cons kv kvs)
  obtain k' v' where kv: "kv = (k', v')" by (cases kv)
  show ?case
  proof (cases "k' = k")
    case True
    then show ?thesis by (simp add: kv)
  next
    case False
    then show ?thesis using Cons.IH by (simp add: kv insert_commute)
  qed
qed

lemma dict_set_distinct: "distinct (map fst kvs) \<Longrightarrow> distinct (map fst (dict_set kvs k v))"
proof (induction kvs)
  case Nil
  then show ?case by simp
next
  case (Cons kv kvs)
  obtain k' v' where kv: "kv = (k', v')" by (cases kv)
  have keys: "fst ` set (dict_set kvs k v) = insert k (fst ` set kvs)" by (rule dict_set_keys)
  show ?case
    using Cons keys by (auto simp: kv)
qed

lemma revalidate_all_valid:
  "distinct (map fst (acc @ C)) \<Longrightarrow> list_all (path_valid L w) C \<Longrightarrow>
     revalidate L w (map (\<lambda>kv. (fst kv, JStr (snd kv))) C) acc ev = (Returned (acc @ C), ev)"
proof (induction C arbitrary: acc)
  case Nil
  then show ?case by simp
next
  case (Cons kv C)
  obtain k p where kv: "kv = (k, p)" by (cases kv)
  have fresh: "k \<notin> fst ` set acc" using Cons.prems(1) by (auto simp: kv)
  have valid: "exists w p \<and> is_valid_engine_path L w p"
    using Cons.prems(2) by (simp add: kv path_valid_def)
  have "revalidate L w (map (\<lambda>kv. (fst kv, JStr (snd kv))) C) (acc @ [(k, p)]) ev
          = (Returned ((acc @ [(k, p)]) @ C), ev)"
    using Cons.prems by (intro Cons.IH) (auto simp: kv)
  then show ?case
    using valid by (simp add: kv dict_set_fresh [OF fresh])
qed

lemma found_loop_distinct:
  "found_loop L w f paths acc ev = (C, ev') \<Longrightarrow> distinct (map fst acc) \<Longrightarrow> distinct (map fst C)"
proof (induction paths arbitrary: acc ev)
  case Nil
  then show ?case by simp
next
  case (Cons p paths)
  show ?case
  proof (cases "extract_version_from_path L w p")
    case (Pair ver e)
    show ?thesis
    proof (cases "truthy ver")
      case True
      then show ?thesis
        using Cons.prems Pair
        by (auto simp: Let_def intro!: Cons.IH dict_set_distinct split: if_splits)
    next
      case False
      then show ?thesis
        using Cons.prems Pair by (auto intro: Cons.IH)
    qed
  qed
qed

lemma process_found_paths_result:
  assumes "process_found_paths L w f paths = (C, w', f', ev)"
  shows "distinct (map fst C) \<and> config_file f' = config_file f
         \<and> finder_localization f' = finder_localization f
         \<and> f' = (if C = [] then f else f\<lparr>found_engines := C\<rparr>)"
proof -
  obtain r e where loop: "found_loop L w f paths [] [] = (r, e)"
    by (cases "found_loop L w f paths [] []")
  have d: "distinct (map fst r)"
    using found_loop_distinct [OF loop] by simp
  show ?thesis
    using assms d by (auto simp: process_found_paths_def loop split: if_splits prod.splits)
qed

lemma search_step_result:
  assumes "search_step L w f sof = (Returned C, w', f', ev)"
  shows "distinct (map fst C) \<and> config_file f' = config_file f
         \<and> finder_localization f' = finder_localization f
         \<and> f' = (if C = [] then f else f\<lparr>found_engines := C\<rparr>)"
  using assms
  by (auto simp: search_step_def Let_def
           split: prod.splits if_splits outcome.splits
           dest!: process_found_paths_result)

lemma load_step_None:
  assumes "load_step L w f fr = (None, f', ev)"
  shows "f' = f"
  using assms
  by (auto simp: load_step_def Let_def split: if_splits prod.splits outcome.splits json.splits)

lemma reload_valid:
  assumes doc: "fs w (config_file f) = Some (File (Json (config_data_of C)))"
    and nonempty: "C \<noteq> []"
    and keys: "distinct (map fst C)"
    and valid: "list_all (path_valid L w) C"
  shows "find_all_engines L w f sof False = (Returned C, w, f\<lparr>found_engines := C\<rparr>, reload_log f)"
proof -
  have load: "load_config w f =
      (Returned (JObj (map (\<lambda>kv. (fst kv, JStr (snd kv))) C)),
       log (localize (finder_localization f) ''log_config_check''
              ''Checking configuration file...'' []) ''INFO''
       @ log (localize (finder_localization f) ''log_config_loaded''
                ''Configuration file loaded successfully.'' []) ''INFO'')"
    by (simp add: load_config_def doc config_data_of_def dict_get_def)
  have rev: "\<And>ev. revalidate L w (map (\<lambda>kv. (fst kv, JStr (snd kv))) C) [] ev = (Returned C, ev)"
    using revalidate_all_valid [of "[]" C L w] keys valid by simp
  have step: "load_step L w f False =
      (Some (Returned C), f\<lparr>found_engines := C\<rparr>,
       log (localize (finder_localization f) ''log_config_check''
              ''Checking configuration file...'' []) ''INFO''
       @ log (localize (finder_localization f) ''log_config_loaded''
                ''Configuration file loaded successfully.'' []) ''INFO''
       @ log (localize (finder_localization f) ''log_engines_loaded''
                ''Unreal Engine paths loaded from configuration'' []) ''SUCCESS'')"
    using nonempty by (simp add: load_step_def load rev)
  show ?thesis
    by (simp add: find_all_engines_def step reload_log_def log_def)
qed


text \<open>
  C5. Let a call of \<open>find_all_engines\<close> that went on to search return the mapping \<open>C\<close>,
  not empty, and let the configuration file then hold \<open>C\<close>, as \<open>save_config\<close> writes it.
  If every path of \<open>C\<close> exists and is a valid engine, the next call with
  \<open>force_rescan = False\<close> returns exactly \<open>C\<close>; it leaves the world and the finder as
  they are, and its log is that of loading the file: no source is searched.
\<close>

theorem config_round_trip:
  assumes scan: "find_all_engines L w0 f stop_on_first force_rescan = (Returned C, w, f1, ev0)"
    and fresh: "fst (load_step L w0 f force_rescan) = None"
    and nonempty: "C \<noteq> []"
    and persisted: "fs w (config_file f) = Some (File (Json (config_data_of C)))"
    and valid: "list_all (path_valid L w) C"
  shows "find_all_engines L w f1 stop_on_first' False = (Returned C, w, f1, reload_log f1)"
proof -
  obtain f' ev where load: "load_step L w0 f force_rescan = (None, f', ev)"
    using fresh by (cases "load_step L w0 f force_rescan") auto
  have f': "f' = f" using load by (rule load_step_None)
  obtain ev' where search: "search_step L w0 f stop_on_first = (Returned C, w, f1, ev')"
    using scan by (auto simp: find_all_engines_def load f' split: prod.splits)
  have res: "distinct (map fst C) \<and> config_file f1 = config_file f
         \<and> finder_localization f1 = finder_localization f
         \<and> f1 = (if C = [] then f else f\<lparr>found_engines := C\<rparr>)"
    using search by (rule search_step_result)
  have same: "f1\<lparr>found_engines := C\<rparr> = f1"
    using res nonempty by simp
  have doc: "fs w (config_file f1) = Some (File (Json (config_data_of C)))"
    using persisted res by simp
  show ?thesis
    using reload_valid [OF doc nonempty _ valid, of stop_on_first'] res same by simp
qed

theorem config_round_trip_witness:
  "fst first_scan = Returned [(''5.3'', demo_engine)]
   \<and> find_all_engines ntlib (fst (snd first_scan)) (fst (snd (snd first_scan))) True False
       = (Returned [(''5.3'', demo_engine)], fst (snd first_scan), fst (snd (snd first_scan)),
          reload_log (fst (snd (snd first_scan))))"
proof -
  have r: "fst first_scan = Returned [(''5.3'', demo_engine)]" by code_simp
  have scan: "find_all_engines ntlib scan_world demo_finder False True
      = (Returned [(''5.3'', demo_engine)], fst (snd first_scan), fst (snd (snd first_scan)),
         snd (snd (snd first_scan)))"
    using r by (simp add: first_scan_def prod_eq_iff)
  have fresh: "fst (load_step ntlib scan_world demo_finder True) = None" by code_simp
  have ne: "[(''5.3'', demo_engine)] \<noteq> []" by simp
  have persisted: "fs (fst (snd first_scan)) (config_file demo_finder)
      = Some (File (Json (config_data_of [(''5.3'', demo_engine)])))" by code_simp
  have valid: "list_all (path_valid ntlib (fst (snd first_scan))) [(''5.3'', demo_engine)]"
    by code_simp
  show ?thesis
    using config_round_trip [OF scan fresh ne persisted valid, of True] r by simp
qed


text \<open>
  C6. When \<open>find_all_engines\<close> goes on to search and the registry, the environment
  variables and the standard paths all give no path, it returns the empty mapping and
  leaves the world, the configuration file in it, and the finder as they are.
\<close>

theorem no_candidates_config_untouched:
  assumes "fst (load_step L w f force_rescan) = None"
    and "fst (find_unreal_in_registry L w f) = []"
    and "fst (find_unreal_in_env_vars L w f) = []"
    and "fst (find_unreal_in_standard_paths L w f) = Returned []"
  shows "\<exists>ev. find_all_engines L w f stop_on_first force_rescan = (Returned [], w, f, ev)"
proof -
  obtain f' ev where load: "load_step L w f force_rescan = (None, f', ev)"
    using assms(1) by (cases "load_step L w f force_rescan") auto
  have f': "f' = f" using load by (rule load_step_None)
  obtain e1 where r: "find_unreal_in_registry L w f = ([], e1)"
    using assms(2) by (cases "find_unreal_in_registry L w f") auto
  obtain e2 where e: "find_unreal_in_env_vars L w f = ([], e2)"
    using assms(3) by (cases "find_unreal_in_env_vars L w f") auto
  obtain e3 where s: "find_unreal_in_standard_paths L w f = (Returned [], e3)"
    using assms(4) by (cases "find_unreal_in_standard_paths L w f") auto
  have "\<exists>ev. search_step L w f stop_on_first = (Returned [], w, f, ev)"
    by (simp add: search_step_def r e s)
  then show ?thesis
    by (auto simp: find_all_engines_def load f')
qed

theorem no_candidates_config_untouched_witness:
  "fst (find_all_engines ntlib demo_world demo_finder False True) = Returned []
   \<and> fs (fst (snd (find_all_engines ntlib demo_world demo_finder False True))) demo_config
       = fs demo_world demo_config
   \<and> fst (find_unreal_in_standard_paths ntlib demo_world demo_finder) = Returned []"
proof -
  have a: "fst (load_step ntlib demo_world demo_finder True) = None" by code_simp
  have b: "fst (find_unreal_in_registry ntlib demo_world demo_finder) = []" by code_simp
  have c: "fst (find_unreal_in_env_vars ntlib demo_world demo_finder) = []" by code_simp
  have d: "fst (find_unreal_in_standard_paths ntlib demo_world demo_finder) = Returned []" by code_simp
  show ?thesis
    using no_candidates_config_untouched [OF a b c d, of False] d by auto
qed


section \<open>Properties of the build orchestrator\<close>

subsection \<open>The command line\<close>

lemma option_args_spec: "option_args kv = spec_option_args kv"
  by (cases kv rule: spec_option_args.cases) (simp_all add: option_args_def)

text \<open>
  C2. \<open>get_build_command\<close> gives a command exactly when the three paths are set and not
  empty and \<open>RunUAT.bat\<close> exists in the target engine; the command is then the path of
  \<open>RunUAT.bat\<close>, \<open>BuildPlugin\<close>, \<open>-plugin\<close>, the normalised descriptor path,
  \<open>-package\<close>, the normalised output path, and after these, for each option in
  insertion order, what the specification's encoding gives: the bare flag for \<open>true\<close>,
  the flag and the value for a value other than \<open>true\<close>, \<open>false\<close>, \<open>None\<close> and the
  empty string, and nothing for \<open>false\<close>, \<open>None\<close> and the empty string.
\<close>

theorem get_build_command_shape:
  "fst (get_build_command L w b) = Some command \<longleftrightarrow>
     (\<exists>src out target.
        source_plugin_path b = Some src \<and> src \<noteq> [] \<and>
        output_folder b = Some out \<and> out \<noteq> [] \<and>
        target_engine_path b = Some target \<and> target \<noteq> [] \<and>
        exists w (uat_path_of L target) \<and>
        command = [uat_path_of L target, ''BuildPlugin'', ''-plugin'', normpath L src,
                   ''-package'', normpath L out]
                  @ concat (map spec_option_args (additional_params b)))"
proof -
  have enc: "map option_args (additional_params b) = map spec_option_args (additional_params b)"
    by (simp add: option_args_spec)
  show ?thesis
    by (cases "source_plugin_path b"; cases "output_folder b"; cases "target_engine_path b")
       (auto simp: get_build_command_def truthy_def Let_def enc)
qed

theorem get_build_command_shape_witness:
  "fst (get_build_command ntlib demo_world demo_builder)
     = Some [win ''C:/UE_5.3/Engine/Build/BatchFiles/RunUAT.bat'', ''BuildPlugin'', ''-plugin'',
             win ''C:/plugins/Foo/Foo.uplugin'', ''-package'', win ''C:/plugins/Foo_5.3'',
             ''-Strict'', ''-TargetPlatforms'', ''Win64+Linux'']"
proof -
  have ex: "exists demo_world (uat_path_of ntlib demo_engine)" by code_simp
  have u: "uat_path_of ntlib demo_engine = win ''C:/UE_5.3/Engine/Build/BatchFiles/RunUAT.bat''"
    by code_simp
  have n1: "normpath ntlib demo_plugin = win ''C:/plugins/Foo/Foo.uplugin''" by code_simp
  have n2: "normpath ntlib demo_output = win ''C:/plugins/Foo_5.3''" by code_simp
  have ne: "demo_plugin \<noteq> [] \<and> demo_output \<noteq> [] \<and> demo_engine \<noteq> []" by code_simp
  show ?thesis
    using get_build_command_shape [of ntlib demo_world demo_builder
            "[win ''C:/UE_5.3/Engine/Build/BatchFiles/RunUAT.bat'', ''BuildPlugin'', ''-plugin'',
              win ''C:/plugins/Foo/Foo.uplugin'', ''-package'', win ''C:/plugins/Foo_5.3'',
              ''-Strict'', ''-TargetPlatforms'', ''Win64+Linux'']"] ex ne
    by (simp add: demo_builder_def init_builder_def u n1 n2)
qed

subsection \<open>Starting and cancelling\<close>

text \<open>
  C9. When no build is active, that is, the builder holds no process or the process it
  holds is no longer running, \<open>cancel_build\<close> returns \<open>False\<close>, emits no event and
  leaves the world as it is.
\<close>

theorem cancel_build_idle:
  assumes "process b = None \<or> (\<exists>p. process b = Some p \<and> state p = NotRunning)"
  shows "cancel_build w b = (False, w, [])"
  using assms by (auto simp: cancel_build_def)

theorem cancel_build_idle_witness:
  "process (init_builder None) = None
   \<and> cancel_build demo_world (init_builder None) = (False, demo_world, [])"
  using cancel_build_idle [of "init_builder None" demo_world]
  by (simp add: init_builder_def)

text \<open>
  C10. \<open>build_plugin\<close> stores its four arguments in the builder before it checks
  anything (\<open>None\<close> for the options is stored as the empty map), so the fields hold
  the new arguments whatever the call returns, \<open>False\<close> included.
\<close>

theorem build_plugin_stores_arguments:
  "case build_plugin L w b src out target params of
     (r, w', b', ev) \<Rightarrow>
       source_plugin_path b' = Some src \<and> output_folder b' = Some out
       \<and> target_engine_path b' = Some target
       \<and> additional_params b' = (case params of None \<Rightarrow> [] | Some ps \<Rightarrow> ps)"
  by (auto simp: build_plugin_def Let_def
           split: sum.splits prod.splits option.splits outcome.splits list.splits)

theorem build_plugin_stores_arguments_witness:
  "fst failing_build = Returned False
   \<and> source_plugin_path (fst (snd (snd failing_build))) = Some ''nowhere.uplugin''
   \<and> output_folder (fst (snd (snd failing_build))) = Some demo_output
   \<and> target_engine_path (fst (snd (snd failing_build))) = Some demo_engine
   \<and> additional_params (fst (snd (snd failing_build))) = [(''Strict'', PyBool True)]"
proof -
  have "fst failing_build = Returned False" by code_simp
  then show ?thesis
    using build_plugin_stores_arguments [where L = ntlib and w = demo_world
          and b = "init_builder None" and src = "''nowhere.uplugin''" and out = demo_output
          and target = demo_engine and params = "Some [(''Strict'', PyBool True)]"]
    by (simp add: failing_build_def split: prod.splits)
qed

subsection \<open>Output of the process\<close>










subsection \<open>The plugin descriptor\<close>

text \<open>
  C8, as stated, fails on the empty JSON object: the name defaults to
  \<open>Unknown Plugin\<close>, which is not empty. It fails also on a descriptor whose list of
  modules holds a string: \<open>extract_plugin_info\<close> returns \<open>None\<close>.
\<close>

theorem extract_plugin_info_default_name:
  "fs demo_world demo_plugin = Some (File (Json (JObj [])))
   \<and> map_option name (fst (extract_plugin_info demo_world demo_plugin))
       = Some (JStr ''Unknown Plugin'')
   \<and> fs demo_descriptor demo_plugin = Some (File (Json (JObj [(''Modules'', JArr [JStr ''Core''])])))
   \<and> fst (extract_plugin_info demo_descriptor demo_plugin) = None"
  by code_simp

lemma module_names_objects:
  "list_all is_object ms \<Longrightarrow>
     module_names ms
       = Inr (map (\<lambda>m. case m of JObj kvs \<Rightarrow> dict_get kvs ''Name'' JNull | _ \<Rightarrow> JNull) ms)"
proof (induction ms)
  case Nil
  then show ?case by simp
next
  case (Cons m ms)
  then show ?case by (cases m) simp_all
qed

text \<open>
  C8, amended. For every descriptor that is a JSON object whose \<open>Modules\<close> entry, when
  there is one, is a list of objects, \<open>extract_plugin_info\<close> succeeds and logs nothing.
  Each field holds the value of its key; a missing \<open>FriendlyName\<close> gives
  \<open>Unknown Plugin\<close>, a missing \<open>Version\<close> gives 0, a missing \<open>Description\<close>,
  \<open>Category\<close>, \<open>EngineVersion\<close> or \<open>MarketplaceURL\<close> gives the empty string, and
  missing \<open>Modules\<close> or \<open>SupportedTargetPlatforms\<close> give the empty list.
  \<open>is_engine_plugin\<close> is true exactly when \<open>EngineVersion\<close> is present with a value
  other than the empty string.
\<close>

theorem extract_plugin_info_defaults:
  assumes doc: "fs w path = Some (File (Json (JObj kvs)))"
    and mods: "modules_well_formed kvs"
  shows "\<exists>info. extract_plugin_info w path = (Some info, [])
     \<and> name info = (case map_of kvs ''FriendlyName'' of None \<Rightarrow> JStr ''Unknown Plugin'' | Some v \<Rightarrow> v)
     \<and> version info = (case map_of kvs ''Version'' of None \<Rightarrow> JInt 0 | Some v \<Rightarrow> v)
     \<and> description info = (case map_of kvs ''Description'' of None \<Rightarrow> JStr [] | Some v \<Rightarrow> v)
     \<and> category info = (case map_of kvs ''Category'' of None \<Rightarrow> JStr [] | Some v \<Rightarrow> v)
     \<and> engine_version info = (case map_of kvs ''EngineVersion'' of None \<Rightarrow> JStr [] | Some v \<Rightarrow> v)
     \<and> marketplace_url info = (case map_of kvs ''MarketplaceURL'' of None \<Rightarrow> JStr [] | Some v \<Rightarrow> v)
     \<and> supported_platforms info
         = (case map_of kvs ''SupportedTargetPlatforms'' of None \<Rightarrow> JArr [] | Some v \<Rightarrow> v)
     \<and> (map_of kvs ''Modules'' = None \<longrightarrow> modules info = [])
     \<and> is_engine_plugin info = (\<exists>v. map_of kvs ''EngineVersion'' = Some v \<and> v \<noteq> JStr [])"
proof -
  obtain ms where ms: "py_iter (dict_get kvs ''Modules'' (JArr [])) = Inr ms" "list_all is_object ms"
    and none: "map_of kvs ''Modules'' = None \<longrightarrow> ms = []"
    using mods
    by (auto simp: modules_well_formed_def dict_get_def split: option.splits json.splits)
  have names: "module_names ms
      = Inr (map (\<lambda>m. case m of JObj kvs \<Rightarrow> dict_get kvs ''Name'' JNull | _ \<Rightarrow> JNull) ms)"
    using ms(2) by (rule module_names_objects)
  have info: "plugin_info_of (JObj kvs) =
      Inr \<lparr>name = dict_get kvs ''FriendlyName'' (JStr ''Unknown Plugin''),
           version = dict_get kvs ''Version'' (JInt 0),
           description = dict_get kvs ''Description'' (JStr []),
           category = dict_get kvs ''Category'' (JStr []),
           modules = map (\<lambda>m. case m of JObj kvs \<Rightarrow> dict_get kvs ''Name'' JNull | _ \<Rightarrow> JNull) ms,
           is_engine_plugin = (dict_get kvs ''EngineVersion'' (JStr []) \<noteq> JStr []),
           engine_version = dict_get kvs ''EngineVersion'' (JStr []),
           marketplace_url = dict_get kvs ''MarketplaceURL'' (JStr []),
           supported_platforms = dict_get kvs ''SupportedTargetPlatforms'' (JArr [])\<rparr>"
    by (simp add: plugin_info_of_def ms(1) names)
  have engine: "(dict_get kvs ''EngineVersion'' (JStr []) \<noteq> JStr [])
      = (\<exists>v. map_of kvs ''EngineVersion'' = Some v \<and> v \<noteq> JStr [])"
    by (simp add: dict_get_def split: option.splits)
  show ?thesis
    using none
    by (simp add: extract_plugin_info_def doc info engine)
       (simp add: dict_get_def)
qed

theorem extract_plugin_info_defaults_witness:
  "fs demo_world demo_plugin = Some (File (Json (JObj []))) \<and> modules_well_formed []
   \<and> extract_plugin_info demo_world demo_plugin
       = (Some \<lparr>name = JStr ''Unknown Plugin'', version = JInt 0, description = JStr [],
               category = JStr [], modules = [], is_engine_plugin = False,
               engine_version = JStr [], marketplace_url = JStr [],
               supported_platforms = JArr []\<rparr>, [])"
proof -
  have f: "fs demo_world demo_plugin = Some (File (Json (JObj [])))" by code_simp
  have m: "modules_well_formed []" by code_simp
  obtain info where i: "extract_plugin_info demo_world demo_plugin = (Some info, [])"
    "name info = JStr ''Unknown Plugin''" "version info = JInt 0" "description info = JStr []"
    "category info = JStr []" "engine_version info = JStr []" "marketplace_url info = JStr []"
    "supported_platforms info = JArr []" "modules info = []" "is_engine_plugin info = False"
    using extract_plugin_info_defaults [OF f m] by auto
  then have "info = \<lparr>name = JStr ''Unknown Plugin'', version = JInt 0, description = JStr [],
               category = JStr [], modules = [], is_engine_plugin = False,
               engine_version = JStr [], marketplace_url = JStr [],
               supported_platforms = JArr []\<rparr>"
    by (cases info) simp
  with f m i(1) show ?thesis by simp
qed

subsection \<open>The end of a build\<close>

text \<open>
  C4, as stated, fails when a build is cancelled: \<open>cancel_build\<close> emits its
  cancellation event, and when the end of the killed process is reported,
  \<open>_process_finished\<close> emits the event of the exit code after it.
\<close>

theorem cancelled_build_finishes_twice:
  "filter is_finished cancelled_run
     = [build_finished False ''Plugin build cancelled by user'',
        build_finished False ''Plugin build failed with error (code: 1)'']
   \<and> last cancelled_run = build_finished False ''Plugin build failed with error (code: 1)''"
  by code_simp

lemma inactive_step:
  assumes "\<not> active b" "\<not> is_build_call c"
  shows "step L (w, b) c = ((w, b), [])"
  using assms by (cases c) (auto simp: cancel_build_def active_def split: option.splits)

lemma inactive_run:
  assumes "\<not> active b"
  shows "list_all (\<lambda>c. \<not> is_build_call c) cs \<Longrightarrow> run L (w, b) cs = []"
proof (induction cs)
  case Nil
  then show ?case by simp
next
  case (Cons c cs)
  then show ?case using assms by (simp add: inactive_step)
qed

lemma ended_inactive: "\<not> active (set_state NotRunning b)"
  by (simp add: active_def set_state_def split: option.splits)

lemma cancel_build_active:
  assumes "active b"
  shows "\<exists>w' ev. cancel_build w b = (True, w', ev @ [build_finished False (cancelled_msg b)])
           \<and> filter is_finished ev = []"
  using assms
  by (auto simp: cancel_build_def active_def log_def Let_def split: option.splits)


text \<open>
  C4, amended. For an active build, when the end of its process is reported,
  \<open>_process_finished\<close> emits one log entry and then the event of the exit code, and
  nothing is emitted afterwards until \<open>build_plugin\<close> is called again. \<open>cancel_build\<close>
  on an active build emits the cancellation event with its fixed message as its last
  event and its only \<open>build_finished\<close> event; it leaves the handle as it is, so when
  the end of the process is reported after it, \<open>_process_finished\<close> emits the event of
  the exit code all the same.
\<close>

theorem terminal_events:
  assumes "active b"
  shows "step L (w, b) (process_ended exit_code) = ((w, set_state NotRunning b), process_finished b exit_code)
    \<and> process_finished b exit_code
        = (if exit_code = 0
           then [log_message (success_msg b) ''SUCCESS'', build_finished True (success_msg b)]
           else [log_message (error_msg b exit_code) ''ERROR'',
                 build_finished False (error_msg b exit_code)])
    \<and> (\<forall>cs. list_all (\<lambda>c. \<not> is_build_call c) cs \<longrightarrow> run L (w, set_state NotRunning b) cs = [])
    \<and> (\<exists>w' ev. step L (w, b) call_cancel_build
                   = ((w', b), ev @ [build_finished False (cancelled_msg b)])
               \<and> filter is_finished ev = []
               \<and> step L (w', b) (process_ended exit_code)
                   = ((w', set_state NotRunning b), process_finished b exit_code))"
proof -
  obtain w' ev where c: "cancel_build w b = (True, w', ev @ [build_finished False (cancelled_msg b)])"
    "filter is_finished ev = []"
    using cancel_build_active [OF assms] by blast
  have quiet: "\<forall>cs. list_all (\<lambda>c. \<not> is_build_call c) cs \<longrightarrow> run L (w, set_state NotRunning b) cs = []"
    using inactive_run [OF ended_inactive] by blast
  show ?thesis
    using assms c quiet by (simp add: process_finished_def log_def)
qed


theorem terminal_events_witness:
  "active (snd after_first_build)
   \<and> snd (step ntlib after_first_build (process_ended 0))
       = [log_message ''Plugin build completed successfully'' ''SUCCESS'',
          build_finished True ''Plugin build completed successfully'']
   \<and> run ntlib (fst (step ntlib after_first_build (process_ended 0)))
         [ready_read_stdout ''late'', process_ended 1, call_cancel_build] = []"
proof -
  have a: "active (snd after_first_build)" by code_simp
  have m: "success_msg (snd after_first_build) = ''Plugin build completed successfully''"
    by code_simp
  have c: "list_all (\<lambda>c. \<not> is_build_call c)
             [ready_read_stdout ''late'', process_ended 1, call_cancel_build]" by simp
  note t = terminal_events [OF a, of ntlib "fst after_first_build" 0]
  have st: "step ntlib after_first_build (process_ended 0)
      = ((fst after_first_build, set_state NotRunning (snd after_first_build)),
         process_finished (snd after_first_build) 0)"
    using t by simp
  have pf: "process_finished (snd after_first_build) 0
      = [log_message ''Plugin build completed successfully'' ''SUCCESS'',
         build_finished True ''Plugin build completed successfully'']"
    using t m by simp
  have q: "run ntlib (fst after_first_build, set_state NotRunning (snd after_first_build))
             [ready_read_stdout ''late'', process_ended 1, call_cancel_build] = []"
    using t c by blast
  show ?thesis
    using a by (simp only: st pf q fst_conv snd_conv simp_thms)
qed


subsection \<open>The process handle\<close>








end
